theory Spec2Isabelle
  imports Main "HOL-Library.Word"
begin

section \<open>Paths and formatting: the library functions main.go calls on strings\<close>

text \<open>
  The program builds its destination paths with \<^verbatim>\<open>fmt.Sprintf("%04d/%02d/%02d", ...)\<close>
  and \<^verbatim>\<open>filepath.Join\<close>. Both are pure functions of the Go standard library; they are
  modelled on Unix paths (separator \<^verbatim>\<open>/\<close>, no volume names).
\<close>

definition IsPathSeparator :: "char \<Rightarrow> bool" where
  "IsPathSeparator c = (c = CHR ''/'')"

text \<open>\<^verbatim>\<open>strings.Split(s, "/")\<close>: the elements between the separators.\<close>

fun split_path :: "string \<Rightarrow> string list" where
  "split_path [] = [[]]"
| "split_path (c # cs) =
     (if IsPathSeparator c then [] # split_path cs
      else (case split_path cs of
              [] \<Rightarrow> [[c]]
            | x # xs \<Rightarrow> (c # x) # xs))"

text \<open>\<^verbatim>\<open>strings.Join(elems, "/")\<close>.\<close>

fun join_sep :: "string list \<Rightarrow> string" where
  "join_sep [] = []"
| "join_sep [x] = x"
| "join_sep (x # y # ys) = x @ ''/'' @ join_sep (y # ys)"

text \<open>
  \<^verbatim>\<open>filepath.Clean\<close> works through the elements of the path from left to right, keeping
  the elements of the result so far (here a stack, last element first): an empty element
  and \<^verbatim>\<open>.\<close> are dropped, \<^verbatim>\<open>..\<close> removes the element before it, is dropped at
  the root, and is kept at the start of a relative path.
\<close>

fun clean_step :: "bool \<Rightarrow> string list \<Rightarrow> string \<Rightarrow> string list" where
  "clean_step rooted st c =
     (if c = [] \<or> c = ''.'' then st
      else if c = ''..'' then
        (case st of
           [] \<Rightarrow> (if rooted then [] else [''..''])
         | s # st' \<Rightarrow> (if s = ''..'' then ''..'' # st else st'))
      else c # st)"

definition clean_elems :: "bool \<Rightarrow> string list \<Rightarrow> string list" where
  "clean_elems rooted cs = rev (foldl (clean_step rooted) [] cs)"

definition render_path :: "bool \<Rightarrow> string list \<Rightarrow> string" where
  "render_path rooted cs =
     (if rooted then CHR ''/'' # join_sep cs
      else if cs = [] then ''.'' else join_sep cs)"

definition IsAbs :: "string \<Rightarrow> bool" where
  "IsAbs p = (case p of [] \<Rightarrow> False | c # _ \<Rightarrow> IsPathSeparator c)"

definition Clean :: "string \<Rightarrow> string" where
  "Clean p =
     (if p = [] then ''.''
      else render_path (IsAbs p) (clean_elems (IsAbs p) (split_path p)))"

text \<open>
  \<^verbatim>\<open>filepath.Join\<close>: the elements from the first non-empty one on, joined with the
  separator and cleaned; the empty string when every element is empty.
\<close>

definition Join :: "string list \<Rightarrow> string" where
  "Join elem =
     (case dropWhile (\<lambda>e. e = []) elem of
        [] \<Rightarrow> []
      | es \<Rightarrow> Clean (join_sep es))"

text \<open>\<^verbatim>\<open>filepath.Base\<close>: the last element of the path, trailing separators removed.\<close>

definition Base :: "string \<Rightarrow> string" where
  "Base p =
     (if p = [] then ''.''
      else (let q = dropWhile IsPathSeparator (rev p);
                b = rev (takeWhile (\<lambda>c. \<not> IsPathSeparator c) q)
            in if b = [] then ''/'' else b))"

text \<open>\<^verbatim>\<open>filepath.Dir\<close>: all but the last element of the path, cleaned.\<close>

definition Dir :: "string \<Rightarrow> string" where
  "Dir p = Clean (rev (dropWhile (\<lambda>c. \<not> IsPathSeparator c) (rev p)))"

text \<open>
  The verb \<^verbatim>\<open>%0Nd\<close> of \<^verbatim>\<open>fmt.Sprintf\<close>: the decimal digits of the number, padded
  with zeros on the left to width \<open>N\<close>; the sign of a negative number counts in the width.
\<close>

definition digit_char :: "nat \<Rightarrow> char" where
  "digit_char n = ''0123456789'' ! (n mod 10)"

fun digits :: "nat \<Rightarrow> string" where
  "digits n = (if n < 10 then [digit_char n] else digits (n div 10) @ [digit_char n])"

declare digits.simps [simp del]

definition fmt_0d :: "nat \<Rightarrow> int \<Rightarrow> string" where
  "fmt_0d width n =
     (if n < 0
      then (let ds = digits (nat (- n)) in
            CHR ''-'' # replicate (width - 1 - length ds) CHR ''0'' @ ds)
      else (let ds = digits (nat n) in
            replicate (width - length ds) CHR ''0'' @ ds))"

section \<open>The file system and the operating-system calls\<close>

type_synonym byte = "8 word"

datatype error =
    ErrNotExist
  | ErrExist
  | ErrPermission
  | ErrNotDir
  | ErrIsDir
  | ErrIO
  | ErrNoExif
  | ErrNoDateTime
  | ErrNonRegularSource string
  | ErrNonRegularDest string

text \<open>\<^verbatim>\<open>os.IsNotExist\<close>.\<close>

definition IsNotExist :: "error \<Rightarrow> bool" where
  "IsNotExist e = (e = ErrNotExist)"

text \<open>\<^verbatim>\<open>os.FileMode\<close>, as far as \<^verbatim>\<open>IsRegular\<close> and \<^verbatim>\<open>IsDir\<close> tell modes apart.\<close>

datatype fmode = Regular | Directory | Irregular

record inode =
  fmode :: fmode
  content :: "byte list"

text \<open>
  \<^verbatim>\<open>os.FileInfo\<close>: the base name, the mode, and the identity of the underlying file that
  \<^verbatim>\<open>os.SameFile\<close> compares.
\<close>

record fileInfo =
  fi_name :: string
  fi_mode :: fmode
  fi_ino :: nat

definition IsRegular :: "fileInfo \<Rightarrow> bool" where
  "IsRegular fi = (fi_mode fi = Regular)"

definition IsDir :: "fileInfo \<Rightarrow> bool" where
  "IsDir fi = (fi_mode fi = Directory)"

definition SameFile :: "fileInfo \<Rightarrow> fileInfo \<Rightarrow> bool" where
  "SameFile a b = (fi_ino a = fi_ino b)"

text \<open>The system calls that can fail for reasons the file system's contents do not show.\<close>

datatype syscall =
    SysStat string
  | SysOpen string
  | SysFstat nat
  | SysRead nat
  | SysCreate string
  | SysWrite nat
  | SysSync nat
  | SysClose nat
  | SysMkdir string
  | SysGetwd

text \<open>
  One entry of the traversal of \<^verbatim>\<open>filepath.Walk\<close>: a call of the walk function, with the
  entry's path and either its \<^verbatim>\<open>FileInfo\<close> or the error met at that entry.
\<close>

datatype visit = Visit string fileInfo | VisitErr string error

text \<open>
  The world the program runs in. Paths name files through \<open>names\<close> (hard links and
  different spellings of a path are different names of one file number), the files
  themselves are in the store \<open>inodes\<close>, \<open>next_ino\<close> is the next unused file number.
  \<open>fault\<close> gives the calls that fail (permissions, a full disk), \<open>short_write\<close> how many
  bytes a failing write still stores, \<open>walk\<close> the order in which \<^verbatim>\<open>filepath.Walk\<close>
  presents the entries under a root, and \<open>cwd\<close> the working directory.
\<close>

record world =
  names :: "string \<Rightarrow> nat option"
  inodes :: "nat \<Rightarrow> inode"
  next_ino :: nat
  fault :: "syscall \<Rightarrow> error option"
  short_write :: "nat \<Rightarrow> nat"
  walk :: "string \<Rightarrow> visit list"
  cwd :: string

definition os_Stat :: "world \<Rightarrow> string \<Rightarrow> error + fileInfo" where
  "os_Stat w p =
     (case fault w (SysStat p) of
        Some e \<Rightarrow> Inl e
      | None \<Rightarrow>
          (case names w p of
             None \<Rightarrow> Inl ErrNotExist
           | Some i \<Rightarrow> Inr \<lparr>fi_name = Base p, fi_mode = fmode (inodes w i), fi_ino = i\<rparr>))"

text \<open>\<^verbatim>\<open>os.Open\<close>: a handle on the file (its number), for reading.\<close>

definition os_Open :: "world \<Rightarrow> string \<Rightarrow> error + nat" where
  "os_Open w p =
     (case fault w (SysOpen p) of
        Some e \<Rightarrow> Inl e
      | None \<Rightarrow> (case names w p of None \<Rightarrow> Inl ErrNotExist | Some i \<Rightarrow> Inr i))"

text \<open>\<^verbatim>\<open>(*os.File).Stat\<close> on an open handle.\<close>

definition file_Stat :: "world \<Rightarrow> string \<Rightarrow> nat \<Rightarrow> error + fileInfo" where
  "file_Stat w p i =
     (case fault w (SysFstat i) of
        Some e \<Rightarrow> Inl e
      | None \<Rightarrow> Inr \<lparr>fi_name = Base p, fi_mode = fmode (inodes w i), fi_ino = i\<rparr>)"

text \<open>
  Reading an open handle to its end: the bytes the file holds at the time of the read.
  A directory cannot be read.
\<close>

definition file_ReadAll :: "world \<Rightarrow> nat \<Rightarrow> error + byte list" where
  "file_ReadAll w i =
     (case fault w (SysRead i) of
        Some e \<Rightarrow> Inl e
      | None \<Rightarrow>
          (if fmode (inodes w i) = Directory then Inl ErrIsDir
           else Inr (content (inodes w i))))"

definition parent_check :: "world \<Rightarrow> string \<Rightarrow> error option" where
  "parent_check w p =
     (case names w (Dir p) of
        None \<Rightarrow> Some ErrNotExist
      | Some d \<Rightarrow> (if fmode (inodes w d) = Directory then None else Some ErrNotDir))"

text \<open>
  \<^verbatim>\<open>os.Create\<close>: opens the file for writing, truncating it when it exists and creating
  it, in an existing parent directory, when it does not.
\<close>

definition os_Create :: "world \<Rightarrow> string \<Rightarrow> (error + nat) \<times> world" where
  "os_Create w p =
     (case fault w (SysCreate p) of
        Some e \<Rightarrow> (Inl e, w)
      | None \<Rightarrow>
          (case names w p of
             Some j \<Rightarrow>
               (if fmode (inodes w j) = Directory then (Inl ErrIsDir, w)
                else (Inr j, w\<lparr>inodes := (inodes w)(j := (inodes w j)\<lparr>content := []\<rparr>)\<rparr>))
           | None \<Rightarrow>
               (case parent_check w p of
                  Some e \<Rightarrow> (Inl e, w)
                | None \<Rightarrow>
                    (let j = next_ino w in
                     (Inr j, w\<lparr>names := (names w)(p \<mapsto> j),
                               inodes := (inodes w)(j := \<lparr>fmode = Regular, content = []\<rparr>),
                               next_ino := Suc j\<rparr>)))))"

text \<open>
  \<^verbatim>\<open>io.Copy(out, in)\<close>: reads \<open>in\<close> to its end and appends what it read to \<open>out\<close>.
  A failing write stores only the first \<open>short_write\<close> bytes.
\<close>

definition append_bytes :: "world \<Rightarrow> nat \<Rightarrow> byte list \<Rightarrow> world" where
  "append_bytes w j bs =
     w\<lparr>inodes := (inodes w)(j := (inodes w j)\<lparr>content := content (inodes w j) @ bs\<rparr>)\<rparr>"

definition io_Copy :: "world \<Rightarrow> nat \<Rightarrow> nat \<Rightarrow> error option \<times> world" where
  "io_Copy w out inp =
     (case file_ReadAll w inp of
        Inl e \<Rightarrow> (Some e, w)
      | Inr bs \<Rightarrow>
          (case fault w (SysWrite out) of
             Some e \<Rightarrow> (Some e, append_bytes w out (take (short_write w out) bs))
           | None \<Rightarrow> (None, append_bytes w out bs)))"

definition file_Sync :: "world \<Rightarrow> nat \<Rightarrow> error option" where
  "file_Sync w j = fault w (SysSync j)"

definition file_Close :: "world \<Rightarrow> nat \<Rightarrow> error option" where
  "file_Close w j = fault w (SysClose j)"

text \<open>\<^verbatim>\<open>os.Mkdir\<close>: one new directory in an existing parent directory.\<close>

definition os_Mkdir :: "world \<Rightarrow> string \<Rightarrow> error option \<times> world" where
  "os_Mkdir w p =
     (case fault w (SysMkdir p) of
        Some e \<Rightarrow> (Some e, w)
      | None \<Rightarrow>
          (case names w p of
             Some _ \<Rightarrow> (Some ErrExist, w)
           | None \<Rightarrow>
               (case parent_check w p of
                  Some e \<Rightarrow> (Some e, w)
                | None \<Rightarrow>
                    (let j = next_ino w in
                     (None, w\<lparr>names := (names w)(p \<mapsto> j),
                              inodes := (inodes w)(j := \<lparr>fmode = Directory, content = []\<rparr>),
                              next_ino := Suc j\<rparr>)))))"

text \<open>
  \<^verbatim>\<open>os.MkdirAll\<close>, as the Go library writes it: nothing to do when the path is a
  directory, an error when it is another file; otherwise the parent first (the path up to
  the separator before its last element), then the directory itself.
\<close>

definition parent_of :: "string \<Rightarrow> string" where
  "parent_of p =
     (let q = dropWhile IsPathSeparator (rev p);
          r = dropWhile (\<lambda>c. \<not> IsPathSeparator c) q
      in rev (tl r))"

function MkdirAll :: "string \<Rightarrow> world \<Rightarrow> error option \<times> world" where
  "MkdirAll p w =
     (case os_Stat w p of
        Inr dir \<Rightarrow> (if IsDir dir then (None, w) else (Some ErrNotDir, w))
      | Inl _ \<Rightarrow>
          (case (if parent_of p \<noteq> [] then MkdirAll (parent_of p) w else (None, w)) of
             (Some e, w1) \<Rightarrow> (Some e, w1)
           | (None, w1) \<Rightarrow>
               (case os_Mkdir w1 p of
                  (None, w2) \<Rightarrow> (None, w2)
                | (Some e, w2) \<Rightarrow>
                    (case os_Stat w2 p of
                       Inr dir \<Rightarrow> (if IsDir dir then (None, w2) else (Some e, w2))
                     | Inl _ \<Rightarrow> (Some e, w2)))))"
  by pat_completeness auto
termination
proof (relation "measure (\<lambda>(p, w). length p)")
  show "wf (measure (\<lambda>(p, w). length p))" by simp
next
  fix p :: string and w :: world
  assume ne: "parent_of p \<noteq> []"
  let ?q = "dropWhile IsPathSeparator (rev p)"
  let ?r = "dropWhile (\<lambda>c. \<not> IsPathSeparator c) ?q"
  have "length ?r \<le> length ?q" by (rule length_dropWhile_le)
  also have "\<dots> \<le> length (rev p)" by (rule length_dropWhile_le)
  finally have le: "length ?r \<le> length p" by simp
  from ne have "tl ?r \<noteq> []" by (simp add: parent_of_def Let_def)
  then have "length (tl ?r) < length ?r" by (cases ?r) simp_all
  with le have "length (parent_of p) < length p" by (simp add: parent_of_def Let_def)
  then show "((parent_of p, w), (p, w)) \<in> measure (\<lambda>(p, w). length p)" by simp
qed

declare MkdirAll.simps [simp del]

section \<open>The external libraries\<close>

text \<open>
  \<^verbatim>\<open>time.Time\<close>, as far as \<^verbatim>\<open>Year\<close>, \<^verbatim>\<open>Month\<close> and \<^verbatim>\<open>Day\<close> read it.
\<close>

record time =
  Year :: int
  Month :: int
  Day :: int

text \<open>
  The decoded metadata of \<^verbatim>\<open>goexif\<close>: what its \<^verbatim>\<open>DateTime\<close> method returns, the
  capture time or the error that no date field is there.
\<close>

datatype exif = Exif "error + time"

fun DateTime :: "exif \<Rightarrow> error + time" where
  "DateTime (Exif r) = r"

text \<open>
  The two libraries the program imports are parameters of the model: the classifier
  \<^verbatim>\<open>filetype.IsImage\<close> on the leading bytes of a file, and the parser
  \<^verbatim>\<open>exif.Decode\<close> on a file's bytes.
\<close>

record libs =
  IsImage :: "byte list \<Rightarrow> bool"
  exif_Decode :: "byte list \<Rightarrow> error + exif"

section \<open>main.go\<close>

text \<open>The struct \<^verbatim>\<open>Image\<close>.\<close>

record Image =
  name :: string
  path :: string
  year :: int
  month :: int
  day :: int

subsection \<open>copyFileContents and copyFile\<close>

text \<open>
  The deferred function of \<^verbatim>\<open>copyFileContents\<close> closes the destination and stores the
  error of \<^verbatim>\<open>out.Close()\<close> in the local \<^verbatim>\<open>err\<close> when that is \<^verbatim>\<open>nil\<close>: the value of
  \<^verbatim>\<open>err\<close> after it has run.
\<close>

definition deferred_Close :: "world \<Rightarrow> nat \<Rightarrow> error option \<Rightarrow> error option" where
  "deferred_Close w out err =
     (let cerr = file_Close w out in if err = None then cerr else err)"

text \<open>
  \<^verbatim>\<open>copyFileContents\<close> opens the source, creates or truncates the destination, copies
  and syncs. Its result is not a named result: a \<^verbatim>\<open>return err\<close> fixes the value returned
  before the deferred function runs, so what that function stores in \<^verbatim>\<open>err\<close> afterwards
  (\<open>err'\<close> below) does not reach the caller. The function returns the error of
  \<^verbatim>\<open>io.Copy\<close> or of \<^verbatim>\<open>out.Sync\<close>.
\<close>

definition copyFileContents :: "string \<Rightarrow> string \<Rightarrow> world \<Rightarrow> error option \<times> world" where
  "copyFileContents src dst w =
     (case os_Open w src of
        Inl err \<Rightarrow> (Some err, w)
      | Inr inp \<Rightarrow>
          (case os_Create w dst of
             (Inl err, w1) \<Rightarrow> (Some err, w1)
           | (Inr out, w1) \<Rightarrow>
               (case io_Copy w1 out inp of
                  (Some err, w2) \<Rightarrow>
                    (let err' = deferred_Close w2 out (Some err) in (Some err, w2))
                | (None, w2) \<Rightarrow>
                    (let err = file_Sync w2 out;
                         err' = deferred_Close w2 out err
                     in (err, w2)))))"

definition copyFile :: "string \<Rightarrow> string \<Rightarrow> world \<Rightarrow> error option \<times> world" where
  "copyFile src dst w =
     (case os_Stat w src of
        Inl err \<Rightarrow> (Some err, w)
      | Inr sfi \<Rightarrow>
          (if \<not> IsRegular sfi then (Some (ErrNonRegularSource (fi_name sfi)), w)
           else
             (case os_Stat w dst of
                Inl err \<Rightarrow>
                  (if \<not> IsNotExist err then (Some err, w)
                   else copyFileContents src dst w)
              | Inr dfi \<Rightarrow>
                  (if \<not> IsRegular dfi then (Some (ErrNonRegularDest (fi_name dfi)), w)
                   else if SameFile sfi dfi then (None, w)
                   else copyFileContents src dst w))))"

subsection \<open>getDate\<close>

text \<open>
  \<^verbatim>\<open>getDate\<close> changes the record it is given only when all three steps succeed; the
  model returns the error or the changed record.
\<close>

definition getDate :: "libs \<Rightarrow> world \<Rightarrow> Image \<Rightarrow> error + Image" where
  "getDate L w img =
     (case os_Open w (path img) of
        Inl err \<Rightarrow> Inl err
      | Inr f \<Rightarrow>
          (case (case file_ReadAll w f of Inl err \<Rightarrow> Inl err | Inr bs \<Rightarrow> exif_Decode L bs) of
             Inl err \<Rightarrow> Inl err
           | Inr x \<Rightarrow>
               (case DateTime x of
                  Inl err \<Rightarrow> Inl err
                | Inr date \<Rightarrow>
                    Inr (img\<lparr>year := Year date, month := Month date, day := Day date\<rparr>))))"

subsection \<open>getImages\<close>

text \<open>
  \<^verbatim>\<open>head := make([]byte, 261); file.Read(head)\<close>: a buffer of 261 zero bytes, its
  start overwritten with what the file holds; the result of \<^verbatim>\<open>Read\<close> is not looked at,
  so a failing read leaves the zeros.
\<close>

definition read_head :: "world \<Rightarrow> nat \<Rightarrow> byte list" where
  "read_head w f =
     (case file_ReadAll w f of
        Inl _ \<Rightarrow> replicate 261 0
      | Inr bs \<Rightarrow> take 261 bs @ replicate (261 - length bs) 0)"

text \<open>\<^verbatim>\<open>filepath.Abs\<close>.\<close>

definition Abs :: "world \<Rightarrow> string \<Rightarrow> error + string" where
  "Abs w p =
     (if IsAbs p then Inr (Clean p)
      else (case fault w SysGetwd of
              Some e \<Rightarrow> Inl e
            | None \<Rightarrow> Inr (Join [cwd w, p])))"

text \<open>
  The function literal handed to \<^verbatim>\<open>filepath.Walk\<close>: its result is the error it returns
  or the slice \<^verbatim>\<open>images\<close> after the call.
\<close>

fun walkFn :: "libs \<Rightarrow> world \<Rightarrow> Image list \<Rightarrow> visit \<Rightarrow> error + Image list" where
  "walkFn L w images (VisitErr p err) = Inl err"
| "walkFn L w images (Visit p info) =
     (if IsDir info then Inr images
      else
        (case os_Open w p of
           Inl err \<Rightarrow> Inl err
         | Inr file \<Rightarrow>
             (if IsImage L (read_head w file) then
                (case Abs w p of
                   Inl err \<Rightarrow> Inl err
                 | Inr absPath \<Rightarrow>
                     Inr (images @ [\<lparr>name = fi_name info, path = absPath,
                                     year = 0, month = 0, day = 0\<rparr>]))
              else Inr images)))"

text \<open>
  \<^verbatim>\<open>filepath.Walk\<close> calls the function on each entry in turn and stops at the first
  error it returns (the function here never returns \<^verbatim>\<open>SkipDir\<close>). The slice is a
  variable of the enclosing function, so it keeps what was appended before the error.
\<close>

fun Walk :: "libs \<Rightarrow> world \<Rightarrow> visit list \<Rightarrow> Image list \<Rightarrow> Image list \<times> error option" where
  "Walk L w [] images = (images, None)"
| "Walk L w (v # vs) images =
     (case walkFn L w images v of
        Inl err \<Rightarrow> (images, Some err)
      | Inr images' \<Rightarrow> Walk L w vs images')"

definition getImages :: "libs \<Rightarrow> world \<Rightarrow> string \<Rightarrow> Image list \<times> error option" where
  "getImages L w p =
     (case Walk L w (walk w p) [] of
        (images, Some err) \<Rightarrow> ([], Some err)
      | (images, None) \<Rightarrow> (images, None))"

subsection \<open>main\<close>

text \<open>The flags after \<^verbatim>\<open>flag.Parse\<close>: their values and the names of those that were set.\<close>

record flags =
  sourceFlag :: string
  destFlag :: string
  dryRunFlag :: bool
  seen :: "string list"

text \<open>What the program writes to the error stream.\<close>

datatype message =
    MissingRequired string
  | PrintDefaults
  | OpenFailed string error
  | InfoFailed string error
  | NotADirectory string
  | WalkFailed string error
  | MkdirFailed string error
  | CopyFailed string string error

definition required :: "string list" where
  "required = [''destination'']"

text \<open>The first loop: the first required flag that was not set.\<close>

fun check_required :: "string list \<Rightarrow> string list \<Rightarrow> string option" where
  "check_required [] sn = None"
| "check_required (req # reqs) sn =
     (if req \<notin> set sn then Some req else check_required reqs sn)"

text \<open>The second loop: the date of each image, an image whose date cannot be read left as it is.\<close>

fun resolve_dates :: "libs \<Rightarrow> world \<Rightarrow> Image list \<Rightarrow> Image list" where
  "resolve_dates L w [] = []"
| "resolve_dates L w (img # images) =
     (case getDate L w img of
        Inl err \<Rightarrow> img
      | Inr img' \<Rightarrow> img') # resolve_dates L w images"

definition dateDir :: "Image \<Rightarrow> string" where
  "dateDir img =
     fmt_0d 4 (year img) @ ''/'' @ fmt_0d 2 (month img) @ ''/'' @ fmt_0d 2 (day img)"

definition dirPath :: "string \<Rightarrow> Image \<Rightarrow> string" where
  "dirPath dest img = Join [dest, dateDir img]"

definition filePath :: "string \<Rightarrow> Image \<Rightarrow> string" where
  "filePath dest img = Join [dest, dateDir img @ ''/'' @ name img]"

text \<open>
  The third loop: the directory of each image, created when \<^verbatim>\<open>os.Stat\<close> says it does
  not exist. A failing \<^verbatim>\<open>os.MkdirAll\<close> ends the program (\<open>Inl\<close>: the message and the
  world at the exit).
\<close>

fun create_dirs :: "string \<Rightarrow> Image list \<Rightarrow> world \<Rightarrow> (message \<times> world) + world" where
  "create_dirs dest [] w = Inr w"
| "create_dirs dest (img # images) w =
     (let newPath = dirPath dest img in
      (case os_Stat w newPath of
         Inl err \<Rightarrow>
           (if IsNotExist err then
              (case MkdirAll newPath w of
                 (Some err', w1) \<Rightarrow> Inl (MkdirFailed newPath err', w1)
               | (None, w1) \<Rightarrow> create_dirs dest images w1)
            else create_dirs dest images w)
       | Inr _ \<Rightarrow> create_dirs dest images w))"

text \<open>The fourth loop: the copies, a failing one reported and passed over.\<close>

fun copy_images :: "string \<Rightarrow> Image list \<Rightarrow> world \<Rightarrow> message list \<times> world" where
  "copy_images dest [] w = ([], w)"
| "copy_images dest (img # images) w =
     (let newPath = filePath dest img in
      (case copyFile (path img) newPath w of
         (Some err, w1) \<Rightarrow>
           (let (msgs, w2) = copy_images dest images w1
            in (CopyFailed (path img) newPath err # msgs, w2))
       | (None, w1) \<Rightarrow> copy_images dest images w1))"

text \<open>
  \<^verbatim>\<open>main\<close>: the exit status, the messages on the error stream, and the world the
  program leaves.
\<close>

definition main :: "libs \<Rightarrow> flags \<Rightarrow> world \<Rightarrow> nat \<times> message list \<times> world" where
  "main L fl w =
     (case check_required required (seen fl) of
        Some req \<Rightarrow> (2, [MissingRequired req, PrintDefaults], w)
      | None \<Rightarrow>
          (case os_Open w (sourceFlag fl) of
             Inl err \<Rightarrow> (1, [OpenFailed (sourceFlag fl) err], w)
           | Inr file \<Rightarrow>
               (case file_Stat w (sourceFlag fl) file of
                  Inl err \<Rightarrow> (2, [InfoFailed (sourceFlag fl) err], w)
                | Inr fi \<Rightarrow>
                    (if \<not> IsDir fi then (2, [NotADirectory (sourceFlag fl)], w)
                     else
                       (let (images0, err) = getImages L w (sourceFlag fl);
                            out1 = (case err of
                                      Some e \<Rightarrow> [WalkFailed (sourceFlag fl) e]
                                    | None \<Rightarrow> []);
                            images = resolve_dates L w images0
                        in (case create_dirs (destFlag fl) images w of
                              Inl (msg, w1) \<Rightarrow> (1, out1 @ [msg], w1)
                            | Inr w1 \<Rightarrow>
                                (let (msgs, w2) = copy_images (destFlag fl) images w1
                                 in (0, out1 @ msgs, w2))))))))"

section \<open>A small world for concrete runs\<close>

text \<open>
  A directory \<^verbatim>\<open>/in\<close> with a JPEG photo taken on 2021-06-15 and a text file, and an empty
  directory \<^verbatim>\<open>/out\<close>. The classifier knows the JPEG signature \<^verbatim>\<open>FF D8 FF\<close>.
\<close>

definition demo_photo :: "byte list" where
  "demo_photo = [0xFF, 0xD8, 0xFF, 0xE1, 0x2A]"

definition demo_libs :: libs where
  "demo_libs =
     \<lparr>IsImage = (\<lambda>buf. take 3 buf = [0xFF, 0xD8, 0xFF]),
      exif_Decode = (\<lambda>bs. if bs = demo_photo
                           then Inr (Exif (Inr \<lparr>Year = 2021, Month = 6, Day = 15\<rparr>))
                           else Inl ErrNoExif)\<rparr>"

definition demo_world :: world where
  "demo_world =
     \<lparr>names = [''/in'' \<mapsto> 1, ''/in/a.jpg'' \<mapsto> 2, ''/in/b.txt'' \<mapsto> 3, ''/out'' \<mapsto> 4],
      inodes = (\<lambda>_. \<lparr>fmode = Directory, content = []\<rparr>)
                 (2 := \<lparr>fmode = Regular, content = demo_photo\<rparr>,
                  3 := \<lparr>fmode = Regular, content = [0x68, 0x69]\<rparr>),
      next_ino = 5,
      fault = (\<lambda>_. None),
      short_write = (\<lambda>_. 0),
      walk = (\<lambda>root. if root = ''/in''
                then [Visit ''/in'' \<lparr>fi_name = ''in'', fi_mode = Directory, fi_ino = 1\<rparr>,
                      Visit ''/in/a.jpg'' \<lparr>fi_name = ''a.jpg'', fi_mode = Regular, fi_ino = 2\<rparr>,
                      Visit ''/in/b.txt'' \<lparr>fi_name = ''b.txt'', fi_mode = Regular, fi_ino = 3\<rparr>]
                else []),
      cwd = ''/''\<rparr>"

definition demo_flags :: flags where
  "demo_flags =
     \<lparr>sourceFlag = ''/in'', destFlag = ''/out'', dryRunFlag = True, seen = [''destination'']\<rparr>"

text \<open>The same world with the text file unreadable: \<^verbatim>\<open>os.Open\<close> on it is refused.\<close>

definition unreadable_world :: world where
  "unreadable_world = demo_world\<lparr>fault := (\<lambda>_. None)(SysOpen ''/in/b.txt'' \<mapsto> ErrPermission)\<rparr>"

text \<open>The flags of a run whose source is the text file, not a directory.\<close>

definition file_source_flags :: flags where
  "file_source_flags = demo_flags\<lparr>sourceFlag := ''/in/b.txt''\<rparr>"

text \<open>The same world where the year directory cannot be made, and where the copy cannot be created.\<close>

definition mkdir_fault_world :: world where
  "mkdir_fault_world = demo_world\<lparr>fault := (\<lambda>_. None)(SysMkdir ''/out/2021'' \<mapsto> ErrPermission)\<rparr>"

definition create_fault_world :: world where
  "create_fault_world =
     demo_world\<lparr>fault := (\<lambda>_. None)(SysCreate ''/out/2021/06/15/a.jpg'' \<mapsto> ErrPermission)\<rparr>"

text \<open>The record of the photo after its date has been read.\<close>

definition demo_image :: Image where
  "demo_image = \<lparr>name = ''a.jpg'', path = ''/in/a.jpg'', year = 2021, month = 6, day = 15\<rparr>"




section \<open>The notions the properties speak of\<close>











section \<open>Unfolding the model\<close>

lemmas path_simps = Join_def Clean_def render_path_def clean_elems_def IsAbs_def
  IsPathSeparator_def Base_def Dir_def parent_of_def

lemmas fmt_simps = fmt_0d_def digits.simps digit_char_def

lemmas os_simps = os_Stat_def os_Open_def file_Stat_def file_ReadAll_def parent_check_def
  os_Create_def append_bytes_def io_Copy_def file_Sync_def file_Close_def os_Mkdir_def
  IsNotExist_def IsRegular_def IsDir_def SameFile_def

lemmas prog_simps = copyFileContents_def copyFile_def getDate_def read_head_def Abs_def
  getImages_def required_def dateDir_def dirPath_def filePath_def main_def

lemma check_required_destination:
  "check_required required sn = (if ''destination'' \<in> set sn then None else Some ''destination'')"
  by (simp add: required_def)

lemma create_dirs_append:
  "create_dirs dest (xs @ ys) w =
     (case create_dirs dest xs w of Inl r \<Rightarrow> Inl r | Inr w' \<Rightarrow> create_dirs dest ys w')"
  by (induction xs arbitrary: w) (auto simp: Let_def split: sum.splits option.splits prod.splits)

lemma copy_images_append:
  "copy_images dest (xs @ ys) w =
     (fst (copy_images dest xs w) @ fst (copy_images dest ys (snd (copy_images dest xs w))),
      snd (copy_images dest ys (snd (copy_images dest xs w))))"
  by (induction xs arbitrary: w) (auto simp: Let_def split: sum.splits option.splits prod.splits)

lemma main_after_checks:
  assumes "''destination'' \<in> set (seen fl)"
    and "os_Open w (sourceFlag fl) = Inr f"
    and "fmode (inodes w f) = Directory"
    and "fault w (SysFstat f) = None"
  shows "main L fl w =
     (case create_dirs (destFlag fl)
             (resolve_dates L w (fst (getImages L w (sourceFlag fl)))) w of
        Inl (msg, w1) \<Rightarrow>
          (1, (case snd (getImages L w (sourceFlag fl)) of
                 Some e \<Rightarrow> [WalkFailed (sourceFlag fl) e] | None \<Rightarrow> []) @ [msg], w1)
      | Inr w1 \<Rightarrow>
          (0, (case snd (getImages L w (sourceFlag fl)) of
                 Some e \<Rightarrow> [WalkFailed (sourceFlag fl) e] | None \<Rightarrow> [])
              @ fst (copy_images (destFlag fl)
                       (resolve_dates L w (fst (getImages L w (sourceFlag fl)))) w1),
           snd (copy_images (destFlag fl)
                  (resolve_dates L w (fst (getImages L w (sourceFlag fl)))) w1)))"
  using assms
  by (simp add: main_def check_required_destination file_Stat_def IsDir_def split_def Let_def
      split: sum.splits)

subsection \<open>Paths\<close>























subsection \<open>Decimal digits\<close>



lemma digits_nonempty: "digits n \<noteq> []"
  by (subst digits.simps) simp




















subsection \<open>The copy\<close>

text \<open>Whether \<^verbatim>\<open>out.Close()\<close> fails makes no difference to what \<^verbatim>\<open>copyFileContents\<close> returns.\<close>

lemma copyFileContents_drops_Close_error:
  "fst (copyFileContents src dst (w\<lparr>fault := (fault w)(SysClose j := e)\<rparr>))
     = fst (copyFileContents src dst w)"
  by (simp add: copyFileContents_def os_Open_def os_Create_def io_Copy_def file_ReadAll_def
      file_Sync_def append_bytes_def parent_check_def Let_def
      split: option.splits sum.splits prod.splits)






subsection \<open>Making directories\<close>


subsection \<open>The walk\<close>








subsection \<open>A whole run\<close>


section \<open>A dated image\<close>



section \<open>The image enumerator\<close>



section \<open>The date resolver\<close>



section \<open>The file copier\<close>

text \<open>
  Claim C8. When \<^verbatim>\<open>os.Stat\<close> resolves source and destination to the same underlying
  file (\<^verbatim>\<open>os.SameFile\<close>), \<open>copyFile\<close> returns without any write: the world it leaves
  is the world it was given, so the file is neither truncated nor changed. For a regular
  file the returned error is the \<^verbatim>\<open>nil\<close> of the destination's \<^verbatim>\<open>os.Stat\<close>.
\<close>

theorem copyFile_same_file_is_noop:
  assumes "os_Stat w src = Inr sfi" and "os_Stat w dst = Inr dfi" and "SameFile sfi dfi"
  shows "snd (copyFile src dst w) = w \<and> (IsRegular sfi \<longrightarrow> copyFile src dst w = (None, w))"
  using assms
  by (auto simp: copyFile_def os_Stat_def IsRegular_def SameFile_def split: option.splits)

theorem copyFile_same_file_is_noop_witness:
  "os_Stat demo_world ''/in/a.jpg'' = Inr \<lparr>fi_name = ''a.jpg'', fi_mode = Regular, fi_ino = 2\<rparr>
   \<and> copyFile ''/in/a.jpg'' ''/in/a.jpg'' demo_world = (None, demo_world)"
proof -
  let ?fi = "\<lparr>fi_name = ''a.jpg'', fi_mode = Regular, fi_ino = 2\<rparr>"
  have st: "os_Stat demo_world ''/in/a.jpg'' = Inr ?fi"
    by (simp add: os_Stat_def demo_world_def Base_def IsPathSeparator_def)
  have sf: "SameFile ?fi ?fi" by (simp add: SameFile_def)
  have rg: "IsRegular ?fi" by (simp add: IsRegular_def)
  from copyFile_same_file_is_noop [OF st st sf] rg st show ?thesis by simp
qed

text \<open>
  Claim C9. When the source is not a regular file, or the destination exists and is not a
  regular file, \<open>copyFile\<close> returns an error and leaves the world as it was: nothing is
  written to the destination.
\<close>

theorem copyFile_rejects_non_regular:
  assumes "(os_Stat w src = Inr sfi \<and> \<not> IsRegular sfi)
           \<or> (os_Stat w dst = Inr dfi \<and> \<not> IsRegular dfi)"
  shows "\<exists>err. copyFile src dst w = (Some err, w)"
  using assms by (auto simp: copyFile_def split: sum.splits)

theorem copyFile_rejects_non_regular_witness:
  "os_Stat demo_world ''/out'' = Inr \<lparr>fi_name = ''out'', fi_mode = Directory, fi_ino = 4\<rparr>
   \<and> (\<exists>err. copyFile ''/in/a.jpg'' ''/out'' demo_world = (Some err, demo_world))"
proof -
  let ?fi = "\<lparr>fi_name = ''out'', fi_mode = Directory, fi_ino = 4\<rparr>"
  have st: "os_Stat demo_world ''/out'' = Inr ?fi"
    by (simp add: os_Stat_def demo_world_def Base_def IsPathSeparator_def)
  have nr: "\<not> IsRegular ?fi" by (simp add: IsRegular_def)
  from st nr have "(os_Stat demo_world ''/in/a.jpg'' = Inr ?fi \<and> \<not> IsRegular ?fi)
     \<or> (os_Stat demo_world ''/out'' = Inr ?fi \<and> \<not> IsRegular ?fi)" by simp
  from copyFile_rejects_non_regular [OF this] st show ?thesis by simp
qed

section \<open>The flags\<close>

text \<open>
  Claim C10. Two runs that differ only in the dry-run flag (its value, and whether it was
  given on the command line at all) behave alike: same exit status, same messages, same
  world left behind. \<open>main\<close> never reads \<open>dryRunFlag\<close>.
\<close>

theorem main_ignores_dryRunFlag:
  "main L (fl\<lparr>dryRunFlag := b\<rparr>) w = main L fl w
   \<and> main L (fl\<lparr>dryRunFlag := b, seen := ''dry-run'' # seen fl\<rparr>) w = main L fl w"
  by (simp add: main_def required_def cong: sum.case_cong option.case_cong if_cong)

text \<open>
  Claim C5, as the code has it. Without \<^verbatim>\<open>-destination\<close> the program exits with status 2
  whatever the file system holds, and leaves it as it was. With the flag given and a source
  that \<^verbatim>\<open>os.Open\<close> opens and that is not a directory, it exits with status 2 and leaves
  the file system as it was.
\<close>

theorem main_configuration_errors:
  "(''destination'' \<notin> set (seen fl) \<longrightarrow>
      main L fl w = (2, [MissingRequired ''destination'', PrintDefaults], w))
   \<and> (''destination'' \<in> set (seen fl) \<and> os_Open w (sourceFlag fl) = Inr f
        \<and> fmode (inodes w f) \<noteq> Directory \<longrightarrow>
      fst (main L fl w) = 2 \<and> snd (snd (main L fl w)) = w)"
  by (auto simp: main_def check_required_destination file_Stat_def IsDir_def
      split: option.splits sum.splits)

theorem main_configuration_errors_witness:
  "main demo_libs (demo_flags\<lparr>seen := []\<rparr>) unreadable_world
      = (2, [MissingRequired ''destination'', PrintDefaults], unreadable_world)
   \<and> os_Open demo_world (sourceFlag file_source_flags) = Inr 3
   \<and> fst (main demo_libs file_source_flags demo_world) = 2
   \<and> snd (snd (main demo_libs file_source_flags demo_world)) = demo_world"
proof -
  have a: "''destination'' \<notin> set (seen (demo_flags\<lparr>seen := []\<rparr>))" by simp
  have b: "''destination'' \<in> set (seen file_source_flags)"
    by (simp add: file_source_flags_def demo_flags_def)
  have c: "os_Open demo_world (sourceFlag file_source_flags) = Inr 3"
    by (simp add: file_source_flags_def demo_flags_def demo_world_def os_Open_def)
  have d: "fmode (inodes demo_world 3) \<noteq> Directory" by (simp add: demo_world_def)
  from main_configuration_errors
         [where fl = "demo_flags\<lparr>seen := []\<rparr>" and L = demo_libs and w = unreadable_world and f = 3] a
    main_configuration_errors
         [where fl = file_source_flags and L = demo_libs and w = demo_world and f = 3] b c d
  show ?thesis by simp
qed

text \<open>
  Claim C5 as stated fails for an existing source that is not a directory and cannot be
  opened: the text file of the demo world, unreadable, is a regular file, and the run that
  names it as source exits with status 1 (the \<^verbatim>\<open>os.Exit(1)\<close> after \<^verbatim>\<open>os.Open\<close>).
\<close>

theorem unopenable_source_exits_1:
  "names unreadable_world (sourceFlag file_source_flags) = Some 3
   \<and> fmode (inodes unreadable_world 3) = Regular
   \<and> ''destination'' \<in> set (seen file_source_flags)
   \<and> fst (main demo_libs file_source_flags unreadable_world) = 1"
  by (simp add: unreadable_world_def file_source_flags_def demo_world_def demo_flags_def
      main_def required_def os_Open_def)

section \<open>Traversal errors\<close>

text \<open>
  Claim C4, as the code has it. When the walk ends with an error, \<open>getImages\<close> returns
  no image together with the error, whatever had been collected; \<open>main\<close> reports the error,
  goes on through the three loops with the empty list, and exits with status 0 leaving
  the file system as it was.
\<close>

theorem traversal_error_keeps_no_images:
  assumes "''destination'' \<in> set (seen fl)"
    and "os_Open w (sourceFlag fl) = Inr f"
    and "fmode (inodes w f) = Directory"
    and "fault w (SysFstat f) = None"
    and "Walk L w (walk w (sourceFlag fl)) [] = (collected, Some e)"
  shows "getImages L w (sourceFlag fl) = ([], Some e)
         \<and> main L fl w = (0, [WalkFailed (sourceFlag fl) e], w)"
proof -
  from assms(5) have g: "getImages L w (sourceFlag fl) = ([], Some e)"
    by (simp add: getImages_def)
  show ?thesis
    by (simp add: main_after_checks [OF assms(1-4)] g)
qed

theorem traversal_error_keeps_no_images_witness:
  "getImages demo_libs unreadable_world (sourceFlag demo_flags) = ([], Some ErrPermission)
   \<and> main demo_libs demo_flags unreadable_world
       = (0, [WalkFailed (sourceFlag demo_flags) ErrPermission], unreadable_world)"
proof -
  have a: "''destination'' \<in> set (seen demo_flags)" by (simp add: demo_flags_def)
  have b: "os_Open unreadable_world (sourceFlag demo_flags) = Inr 1"
    by (simp add: unreadable_world_def demo_world_def demo_flags_def os_Open_def)
  have c: "fmode (inodes unreadable_world 1) = Directory"
    by (simp add: unreadable_world_def demo_world_def)
  have d: "fault unreadable_world (SysFstat 1) = None"
    by (simp add: unreadable_world_def)
  have e: "Walk demo_libs unreadable_world (walk unreadable_world (sourceFlag demo_flags)) []
     = ([\<lparr>name = ''a.jpg'', path = ''/in/a.jpg'', year = 0, month = 0, day = 0\<rparr>], Some ErrPermission)"
    by (simp add: unreadable_world_def demo_world_def demo_libs_def demo_photo_def demo_flags_def
        prog_simps os_simps path_simps)
  from traversal_error_keeps_no_images [OF a b c d e] show ?thesis .
qed

text \<open>
  Claim C4 as stated fails: in the demo world with the text file unreadable, the walk has
  collected the photo when it meets the error, yet \<open>getImages\<close> returns no image and the
  run copies nothing.
\<close>

theorem partial_results_are_dropped:
  "Walk demo_libs unreadable_world (walk unreadable_world ''/in'') []
     = ([\<lparr>name = ''a.jpg'', path = ''/in/a.jpg'', year = 0, month = 0, day = 0\<rparr>], Some ErrPermission)
   \<and> getImages demo_libs unreadable_world ''/in'' = ([], Some ErrPermission)
   \<and> main demo_libs demo_flags unreadable_world
       = (0, [WalkFailed ''/in'' ErrPermission], unreadable_world)"
  by (simp add: unreadable_world_def demo_world_def demo_libs_def demo_photo_def demo_flags_def
      prog_simps os_simps path_simps)

section \<open>Placement and copying\<close>

text \<open>
  Claim C6. When the directory of a record does not exist and \<^verbatim>\<open>os.MkdirAll\<close> fails on
  it, the run ends there: exit status 1, the failure as the last message, and the world
  as the failing \<^verbatim>\<open>os.MkdirAll\<close> left it, so no later record is placed and nothing is
  copied.
\<close>

theorem mkdir_failure_ends_the_run:
  assumes "''destination'' \<in> set (seen fl)"
    and "os_Open w (sourceFlag fl) = Inr f"
    and "fmode (inodes w f) = Directory"
    and "fault w (SysFstat f) = None"
    and "resolve_dates L w (fst (getImages L w (sourceFlag fl))) = pre @ img # post"
    and "create_dirs (destFlag fl) pre w = Inr w'"
    and "os_Stat w' (dirPath (destFlag fl) img) = Inl e0"
    and "IsNotExist e0"
    and "MkdirAll (dirPath (destFlag fl) img) w' = (Some e, w1)"
  shows "\<exists>out. main L fl w = (1, out @ [MkdirFailed (dirPath (destFlag fl) img) e], w1)"
proof -
  have "create_dirs (destFlag fl) (pre @ img # post) w
          = Inl (MkdirFailed (dirPath (destFlag fl) img) e, w1)"
    using assms(6-9) by (simp add: create_dirs_append)
  with assms(5) show ?thesis
    by (simp add: main_after_checks [OF assms(1-4)])
qed

theorem mkdir_failure_ends_the_run_witness:
  "main demo_libs demo_flags mkdir_fault_world
     = (1, [MkdirFailed ''/out/2021/06/15'' ErrPermission], mkdir_fault_world)"
proof -
  have a: "''destination'' \<in> set (seen demo_flags)" by (simp add: demo_flags_def)
  have b: "os_Open mkdir_fault_world (sourceFlag demo_flags) = Inr 1"
    by (simp add: mkdir_fault_world_def demo_world_def demo_flags_def os_Open_def)
  have c: "fmode (inodes mkdir_fault_world 1) = Directory"
    by (simp add: mkdir_fault_world_def demo_world_def)
  have d: "fault mkdir_fault_world (SysFstat 1) = None"
    by (simp add: mkdir_fault_world_def)
  have e: "resolve_dates demo_libs mkdir_fault_world
             (fst (getImages demo_libs mkdir_fault_world (sourceFlag demo_flags)))
           = [] @ demo_image # []"
    by (simp add: mkdir_fault_world_def demo_world_def demo_libs_def demo_photo_def
        demo_flags_def demo_image_def prog_simps os_simps path_simps)
  have p: "dirPath (destFlag demo_flags) demo_image = ''/out/2021/06/15''"
    by (simp add: demo_flags_def demo_image_def prog_simps path_simps fmt_simps)
  have g: "create_dirs (destFlag demo_flags) [] mkdir_fault_world = Inr mkdir_fault_world"
    by simp
  have h: "os_Stat mkdir_fault_world (dirPath (destFlag demo_flags) demo_image) = Inl ErrNotExist"
    by (simp add: p mkdir_fault_world_def demo_world_def os_Stat_def)
  have i: "IsNotExist ErrNotExist" by (simp add: IsNotExist_def)
  have j: "MkdirAll (dirPath (destFlag demo_flags) demo_image) mkdir_fault_world
             = (Some ErrPermission, mkdir_fault_world)"
    by (simp add: p mkdir_fault_world_def demo_world_def MkdirAll.simps os_simps path_simps)
  from mkdir_failure_ends_the_run [OF a b c d e g h i j]
  obtain out where m: "main demo_libs demo_flags mkdir_fault_world
     = (1, out @ [MkdirFailed (dirPath (destFlag demo_flags) demo_image) ErrPermission],
        mkdir_fault_world)" by blast
  have "fst (snd (main demo_libs demo_flags mkdir_fault_world))
          = [MkdirFailed ''/out/2021/06/15'' ErrPermission]"
    by (simp add: mkdir_fault_world_def demo_world_def demo_libs_def demo_photo_def
        demo_flags_def prog_simps os_simps path_simps fmt_simps MkdirAll.simps)
  with m show ?thesis by (simp add: p)
qed

text \<open>
  Claim C7. When the copy of an image fails, the failure is written to the error stream,
  the images after it are copied from the world the failed copy left, and the exit status
  is 0.
\<close>

theorem copy_failure_is_reported_and_passed_over:
  assumes "''destination'' \<in> set (seen fl)"
    and "os_Open w (sourceFlag fl) = Inr f"
    and "fmode (inodes w f) = Directory"
    and "fault w (SysFstat f) = None"
    and "resolve_dates L w (fst (getImages L w (sourceFlag fl))) = pre @ img # post"
    and "create_dirs (destFlag fl) (pre @ img # post) w = Inr w1"
    and "copy_images (destFlag fl) pre w1 = (m1, w2)"
    and "copyFile (path img) (filePath (destFlag fl) img) w2 = (Some e, w3)"
  shows "\<exists>out. main L fl w =
           (0,
            out @ m1 @ CopyFailed (path img) (filePath (destFlag fl) img) e
              # fst (copy_images (destFlag fl) post w3),
            snd (copy_images (destFlag fl) post w3))"
proof -
  have "copy_images (destFlag fl) (pre @ img # post) w1 =
          (m1 @ CopyFailed (path img) (filePath (destFlag fl) img) e
             # fst (copy_images (destFlag fl) post w3),
           snd (copy_images (destFlag fl) post w3))"
    using assms(7,8) by (simp add: copy_images_append split: prod.splits)
  with assms(5,6) show ?thesis
    by (simp add: main_after_checks [OF assms(1-4)])
qed

theorem copy_failure_is_reported_and_passed_over_witness:
  "fst (main demo_libs demo_flags create_fault_world) = 0
   \<and> CopyFailed ''/in/a.jpg'' ''/out/2021/06/15/a.jpg'' ErrPermission
       \<in> set (fst (snd (main demo_libs demo_flags create_fault_world)))"
proof -
  define w1 where "w1 = projr (create_dirs (destFlag demo_flags) ([] @ demo_image # []) create_fault_world)"
  define w3 where "w3 = snd (copyFile (path demo_image) (filePath (destFlag demo_flags) demo_image) w1)"
  have a: "''destination'' \<in> set (seen demo_flags)" by (simp add: demo_flags_def)
  have b: "os_Open create_fault_world (sourceFlag demo_flags) = Inr 1"
    by (simp add: create_fault_world_def demo_world_def demo_flags_def os_Open_def)
  have c: "fmode (inodes create_fault_world 1) = Directory"
    by (simp add: create_fault_world_def demo_world_def)
  have d: "fault create_fault_world (SysFstat 1) = None"
    by (simp add: create_fault_world_def)
  have e: "resolve_dates demo_libs create_fault_world
             (fst (getImages demo_libs create_fault_world (sourceFlag demo_flags)))
           = [] @ demo_image # []"
    by (simp add: create_fault_world_def demo_world_def demo_libs_def demo_photo_def
        demo_flags_def demo_image_def prog_simps os_simps path_simps)
  have p: "dirPath (destFlag demo_flags) demo_image = ''/out/2021/06/15''"
    by (simp add: demo_flags_def demo_image_def prog_simps path_simps fmt_simps)
  have q: "filePath (destFlag demo_flags) demo_image = ''/out/2021/06/15/a.jpg''"
    by (simp add: demo_flags_def demo_image_def prog_simps path_simps fmt_simps)
  have f: "create_dirs (destFlag demo_flags) ([] @ demo_image # []) create_fault_world = Inr w1"
    unfolding w1_def
    by (simp add: demo_image_def demo_flags_def create_fault_world_def demo_world_def
        MkdirAll.simps prog_simps fmt_simps os_simps path_simps)
  have g: "copy_images (destFlag demo_flags) [] w1 = ([], w1)" by simp
  have h: "copyFile (path demo_image) (filePath (destFlag demo_flags) demo_image) w1
             = (Some ErrPermission, w3)"
    unfolding w3_def w1_def
    by (simp add: demo_image_def demo_flags_def create_fault_world_def demo_world_def
        MkdirAll.simps prog_simps fmt_simps os_simps path_simps)
  from copy_failure_is_reported_and_passed_over [OF a b c d e f g h] q
  show ?thesis by (auto simp: demo_image_def)
qed

end
